theory Spec2Isabelle
  imports Main
begin

section \<open>The LipSync gateway (main.py) as a shallow embedding\<close>

text \<open>
  The gateway is a thin layer over two collaborators: the media uploader
  (\<^verbatim>\<open>cloudinary.uploader.upload\<close>) and the generation client
  (\<^verbatim>\<open>client.generations\<close>). Both are external, so they enter the model as
  parameters: functions on an abstract world state \<open>'w\<close> that either raise or return.
  Every handler returns its outcome (a raised exception or a value), the world it leaves
  and the list of collaborator calls it made, in order, each with its outcome.
\<close>

subsection \<open>Exceptions and their string representation\<close>

text \<open>
  Values of Python's class \<^verbatim>\<open>Exception\<close>, which is what the handlers'
  \<^verbatim>\<open>except Exception as e\<close> catches. \<open>Exception msg\<close> stands for any instance
  other than the two named ones, \<open>msg\<close> being its \<^verbatim>\<open>str(e)\<close>;
  \<open>HTTPException status_code detail\<close> is FastAPI's exception, itself a subclass of
  \<^verbatim>\<open>Exception\<close>.
\<close>

datatype exn =
    Exception string
  | RuntimeError string
  | HTTPException nat string

definition digit :: "nat \<Rightarrow> char" where
  "digit d = ''0123456789'' ! d"

text \<open>Python's \<^verbatim>\<open>str\<close> of a non-negative integer: its decimal digits.\<close>

function str_nat :: "nat \<Rightarrow> string" where
  "str_nat n = (if n < 10 then [digit n] else str_nat (n div 10) @ [digit (n mod 10)])"
  by pat_completeness auto
termination
  by (relation "measure (\<lambda>n. n)") auto

declare str_nat.simps [simp del]

text \<open>
  \<^verbatim>\<open>str(e)\<close>. For an ordinary exception it is the message it carries. For an
  \<^verbatim>\<open>HTTPException\<close> it is what Starlette's \<^verbatim>\<open>__str__\<close> renders,
  \<^verbatim>\<open>f"{self.status_code}: {self.detail}"\<close>.
\<close>

fun str_exn :: "exn \<Rightarrow> string" where
  "str_exn (Exception msg) = msg"
| "str_exn (RuntimeError msg) = msg"
| "str_exn (HTTPException status_code detail) = str_nat status_code @ '': '' @ detail"

subsection \<open>Collaborators and the record of their calls\<close>

text \<open>
  Modelled from the spec: the descriptor classes \<^verbatim>\<open>Video\<close> and \<^verbatim>\<open>Audio\<close> of
  the SDK package (\<^verbatim>\<open>src.sync.common\<close>) are not among the sources. The spec calls
  them the video descriptor and the audio descriptor, each built from one URL.
\<close>

datatype input = Video string | Audio string

text \<open>An uploaded file (\<^verbatim>\<open>video_file.file\<close>) is opaque to the gateway; it is named by its content.\<close>

type_synonym upload_file = string

text \<open>The dictionary \<^verbatim>\<open>cloudinary.uploader.upload\<close> returns.\<close>

type_synonym upload_result = "string \<rightharpoonup> string"

datatype call =
    UploaderUpload upload_file string string
  | GenerationsCreate "input list" string
  | GenerationsGet string
  | GenerationsList
  | GenerationsEstimateCost "input list" string

datatype outcome = Returned | Raised exn

type_synonym event = "call \<times> outcome"

text \<open>
  The collaborators. \<open>'g\<close> is the job record and \<open>'c\<close> the cost estimate of the remote
  service, both opaque to the gateway. The arguments of \<open>uploader_upload\<close> are the file,
  \<^verbatim>\<open>resource_type\<close> and \<^verbatim>\<open>folder\<close>; those of \<open>generations_create\<close> and
  \<open>generations_estimate_cost\<close> are \<^verbatim>\<open>input\<close> and \<^verbatim>\<open>model\<close>.
\<close>

record ('w, 'g, 'c) collaborators =
  uploader_upload :: "upload_file \<Rightarrow> string \<Rightarrow> string \<Rightarrow> 'w \<Rightarrow> (exn + upload_result) \<times> 'w"
  generations_create :: "input list \<Rightarrow> string \<Rightarrow> 'w \<Rightarrow> (exn + 'g) \<times> 'w"
  generations_get :: "string \<Rightarrow> 'w \<Rightarrow> (exn + 'g) \<times> 'w"
  generations_list :: "'w \<Rightarrow> (exn + 'g list) \<times> 'w"
  generations_estimate_cost :: "input list \<Rightarrow> string \<Rightarrow> 'w \<Rightarrow> (exn + 'c) \<times> 'w"

text \<open>A computation of a handler: from a world to an outcome, the new world and the calls made.\<close>

type_synonym ('a, 'w) action = "'w \<Rightarrow> (exn + 'a) \<times> 'w \<times> event list"

definition result_of :: "(exn + 'a) \<times> 'w \<times> event list \<Rightarrow> exn + 'a" where
  "result_of x = fst x"

definition world_of :: "(exn + 'a) \<times> 'w \<times> event list \<Rightarrow> 'w" where
  "world_of x = fst (snd x)"

definition events_of :: "(exn + 'a) \<times> 'w \<times> event list \<Rightarrow> event list" where
  "events_of x = snd (snd x)"

definition calls_of :: "(exn + 'a) \<times> 'w \<times> event list \<Rightarrow> call list" where
  "calls_of x = map fst (events_of x)"

definition outcome_of :: "exn + 'a \<Rightarrow> outcome" where
  "outcome_of r = (case r of Inl e \<Rightarrow> Raised e | Inr v \<Rightarrow> Returned)"

text \<open>One collaborator call: run it on the world and record the call with its outcome.\<close>

definition perform :: "call \<Rightarrow> ('w \<Rightarrow> (exn + 'a) \<times> 'w) \<Rightarrow> ('a, 'w) action" where
  "perform c f w = (case f w of (r, w') \<Rightarrow> (r, w', [(c, outcome_of r)]))"

text \<open>\<^verbatim>\<open>raise e\<close> and \<^verbatim>\<open>return v\<close>: no collaborator is called.\<close>

definition raise :: "exn \<Rightarrow> ('a, 'w) action" where
  "raise e w = (Inl e, w, [])"

definition return :: "'a \<Rightarrow> ('a, 'w) action" where
  "return v w = (Inr v, w, [])"

text \<open>Statement after statement: an exception of the first skips the rest.\<close>

definition bind :: "('a, 'w) action \<Rightarrow> ('a \<Rightarrow> ('b, 'w) action) \<Rightarrow> ('b, 'w) action" where
  "bind m k w =
     (case m w of
        (Inl e, w1, t1) \<Rightarrow> (Inl e, w1, t1)
      | (Inr a, w1, t1) \<Rightarrow> (case k a w1 of (r, w2, t2) \<Rightarrow> (r, w2, t1 @ t2)))"

text \<open>
  \<^verbatim>\<open>try: body except Exception as e: raise HTTPException(status_code=code, detail=str(e))\<close>
\<close>

definition try_except :: "nat \<Rightarrow> ('a, 'w) action \<Rightarrow> ('a, 'w) action" where
  "try_except code body w =
     (case body w of
        (Inl e, w1, t) \<Rightarrow> (Inl (HTTPException code (str_exn e)), w1, t)
      | (Inr v, w1, t) \<Rightarrow> (Inr v, w1, t))"

text \<open>The calls as the handlers write them.\<close>

definition upload ::
  "('w, 'g, 'c) collaborators \<Rightarrow> upload_file \<Rightarrow> string \<Rightarrow> string \<Rightarrow> (upload_result, 'w) action" where
  "upload env f resource_type folder =
     perform (UploaderUpload f resource_type folder) (uploader_upload env f resource_type folder)"

definition create ::
  "('w, 'g, 'c) collaborators \<Rightarrow> input list \<Rightarrow> string \<Rightarrow> ('g, 'w) action" where
  "create env inputs m = perform (GenerationsCreate inputs m) (generations_create env inputs m)"

definition get :: "('w, 'g, 'c) collaborators \<Rightarrow> string \<Rightarrow> ('g, 'w) action" where
  "get env ident = perform (GenerationsGet ident) (generations_get env ident)"

definition list_all_generations :: "('w, 'g, 'c) collaborators \<Rightarrow> ('g list, 'w) action" where
  "list_all_generations env = perform GenerationsList (generations_list env)"

definition estimate ::
  "('w, 'g, 'c) collaborators \<Rightarrow> input list \<Rightarrow> string \<Rightarrow> ('c, 'w) action" where
  "estimate env inputs m =
     perform (GenerationsEstimateCost inputs m) (generations_estimate_cost env inputs m)"

subsection \<open>Startup\<close>

type_synonym environ = "string \<rightharpoonup> string"

definition os_getenv :: "environ \<Rightarrow> string \<Rightarrow> string option" where
  "os_getenv environ key = environ key"

text \<open>Python's \<^verbatim>\<open>not x\<close> on an optional string: true of \<^verbatim>\<open>None\<close> and of the empty string.\<close>

definition falsy :: "string option \<Rightarrow> bool" where
  "falsy x = (x = None \<or> x = Some [])"

record cloudinary_config =
  cloud_name :: "string option"
  api_key :: "string option"
  api_secret :: "string option"
  secure :: bool

record app =
  cloudinary :: cloudinary_config
  title :: string
  origins :: "string list"
  client_api_key :: string

text \<open>
  \<^verbatim>\<open>load_dotenv()\<close>, the first statement of the module: it "will load the .env file and
  make the variables available to os.getenv()". \<open>dotenv_file\<close> holds the variables of
  the .env file (none when there is no file). A variable the process environment already
  has keeps its value; the others are added.
\<close>

definition load_dotenv :: "environ \<Rightarrow> environ \<Rightarrow> environ" where
  "load_dotenv dotenv_file environ =
     (\<lambda>key. case environ key of Some v \<Rightarrow> Some v | None \<Rightarrow> dotenv_file key)"

text \<open>
  The module's top level, from the .env file and the environment of the process at its
  start; the HTTP service exists only when the result is an \<open>app\<close>.
\<close>

definition startup :: "environ \<Rightarrow> environ \<Rightarrow> exn + app" where
  "startup dotenv_file environ0 =
     (let environ = load_dotenv dotenv_file environ0;
          config = \<lparr>cloud_name = os_getenv environ ''CLOUDINARY_CLOUD_NAME'',
                    api_key = os_getenv environ ''CLOUDINARY_API_KEY'',
                    api_secret = os_getenv environ ''CLOUDINARY_API_SECRET'',
                    secure = True\<rparr>;
          API_KEY = os_getenv environ ''API_KEY''
      in if falsy API_KEY then Inl (RuntimeError ''API_KEY environment variable not set.'')
         else Inr \<lparr>cloudinary = config,
                   title = ''LipSync API'',
                   origins = [''http://localhost:8080'', ''http://127.0.0.1:8080'',
                              ''http://localhost:5173'', ''http://localhost:3000''],
                   client_api_key = the API_KEY\<rparr>)"

subsection \<open>Request models\<close>

text \<open>
  A JSON body that has the two required fields, as it arrives: \<open>body_model\<close> is
  \<open>None\<close> when the body has no \<^verbatim>\<open>model\<close> field.
\<close>

record generation_body =
  body_video_url :: string
  body_audio_url :: string
  body_model :: "string option"

record CreateGenerationRequest =
  video_url :: string
  audio_url :: string
  model :: string

text \<open>
  \<^verbatim>\<open>model: str = "lipsync-2"\<close> of the request model: the default stands in when the
  body omits the field.
\<close>

definition with_default :: "string \<Rightarrow> string option \<Rightarrow> string" where
  "with_default d field = (case field of None \<Rightarrow> d | Some v \<Rightarrow> v)"

definition parse_CreateGenerationRequest :: "generation_body \<Rightarrow> CreateGenerationRequest" where
  "parse_CreateGenerationRequest body =
     \<lparr>video_url = body_video_url body,
      audio_url = body_audio_url body,
      model = with_default ''lipsync-2'' (body_model body)\<rparr>"

subsection \<open>Endpoints\<close>

definition create_generation ::
  "('w, 'g, 'c) collaborators \<Rightarrow> CreateGenerationRequest \<Rightarrow> ('g, 'w) action" where
  "create_generation env request =
     try_except 500
       (let inputs = [Video (video_url request), Audio (audio_url request)]
        in bind (create env inputs (model request)) (\<lambda>generation. return generation))"

definition get_generation :: "('w, 'g, 'c) collaborators \<Rightarrow> string \<Rightarrow> ('g, 'w) action" where
  "get_generation env ident =
     try_except 404 (bind (get env ident) (\<lambda>generation. return generation))"


definition estimate_cost ::
  "('w, 'g, 'c) collaborators \<Rightarrow> upload_file \<Rightarrow> upload_file \<Rightarrow> string \<Rightarrow> ('c, 'w) action" where
  "estimate_cost env video_file audio_file model' =
     try_except 500
       (bind (upload env video_file ''video'' ''lipsync_uploads'') (\<lambda>video_upload_result.
        let video_url = video_upload_result ''secure_url'' in
        bind (upload env audio_file ''video'' ''lipsync_uploads'') (\<lambda>audio_upload_result.
        let audio_url = audio_upload_result ''secure_url'' in
        if falsy video_url \<or> falsy audio_url
        then raise (HTTPException 500 ''File upload to Cloudinary failed for cost estimation.'')
        else let inputs = [Video (the video_url), Audio (the audio_url)]
             in bind (estimate env inputs model') (\<lambda>cost. return cost))))"

definition upload_and_generate ::
  "('w, 'g, 'c) collaborators \<Rightarrow> upload_file \<Rightarrow> upload_file \<Rightarrow> string \<Rightarrow> ('g, 'w) action" where
  "upload_and_generate env video_file audio_file model' =
     try_except 500
       (bind (upload env video_file ''video'' ''lipsync_uploads'') (\<lambda>video_upload_result.
        let video_url = video_upload_result ''secure_url'' in
        bind (upload env audio_file ''video'' ''lipsync_uploads'') (\<lambda>audio_upload_result.
        let audio_url = audio_upload_result ''secure_url'' in
        if falsy video_url \<or> falsy audio_url
        then raise (HTTPException 500 ''File upload to Cloudinary failed.'')
        else let inputs = [Video (the video_url), Audio (the audio_url)]
             in bind (create env inputs model') (\<lambda>generation. return generation))))"

definition read_root :: "((string \<times> string) list, 'w) action" where
  "read_root =
     return [(''message'', ''Welcome to the LipSync API. Visit /docs for documentation.'')]"


text \<open>
  The routes as FastAPI binds them: the JSON body is parsed into the request model, and
  the form field \<^verbatim>\<open>model\<close> takes its declared default.
\<close>

definition post_generations ::
  "('w, 'g, 'c) collaborators \<Rightarrow> generation_body \<Rightarrow> ('g, 'w) action" where
  "post_generations env body = create_generation env (parse_CreateGenerationRequest body)"



subsection \<open>Reading the record of calls\<close>

text \<open>The calls that go to the generation client; the others go to the media uploader.\<close>

fun is_generation_call :: "call \<Rightarrow> bool" where
  "is_generation_call (UploaderUpload f resource_type folder) = False"
| "is_generation_call (GenerationsCreate inputs m) = True"
| "is_generation_call (GenerationsGet ident) = True"
| "is_generation_call GenerationsList = True"
| "is_generation_call (GenerationsEstimateCost inputs m) = True"

subsection \<open>Test doubles\<close>

text \<open>
  Collaborators with fixed answers, for running the handlers on concrete requests. The
  world is the number of collaborator calls served so far. The uploader answers by file;
  the generation client answers \<open>gen\<close> to create, get and list, and \<open>cost\<close> to
  estimate-cost.
\<close>

definition double ::
  "(upload_file \<Rightarrow> exn + upload_result) \<Rightarrow> exn + string \<Rightarrow> exn + string \<Rightarrow>
   (nat, string, string) collaborators" where
  "double up gen cost =
     \<lparr>uploader_upload = (\<lambda>f resource_type folder n. (up f, Suc n)),
      generations_create = (\<lambda>inputs m n. (gen, Suc n)),
      generations_get = (\<lambda>ident n. (gen, Suc n)),
      generations_list = (\<lambda>n. (case gen of Inl e \<Rightarrow> Inl e | Inr g \<Rightarrow> Inr [g], Suc n)),
      generations_estimate_cost = (\<lambda>inputs m n. (cost, Suc n))\<rparr>"

text \<open>A generation client that knows the jobs of \<open>jobs\<close> by their identifiers.\<close>

definition job_store :: "(string \<rightharpoonup> string) \<Rightarrow> (nat, string, string) collaborators" where
  "job_store jobs =
     \<lparr>uploader_upload = (\<lambda>f resource_type folder n. (Inr Map.empty, Suc n)),
      generations_create = (\<lambda>inputs m n. (Inl (Exception ''quota exceeded''), Suc n)),
      generations_get = (\<lambda>ident n.
        (case jobs ident of
           None \<Rightarrow> Inl (Exception (''no generation '' @ ident))
         | Some g \<Rightarrow> Inr g, Suc n)),
      generations_list = (\<lambda>n. (Inr [], Suc n)),
      generations_estimate_cost = (\<lambda>inputs m n. (Inl (Exception ''quota exceeded''), Suc n))\<rparr>"

definition hosted :: "upload_file \<Rightarrow> exn + upload_result" where
  "hosted f = Inr [''secure_url'' \<mapsto> ''https://res.example/'' @ f]"

definition no_url :: "upload_file \<Rightarrow> exn + upload_result" where
  "no_url f = Inr Map.empty"

definition video_without_url :: "upload_file \<Rightarrow> exn + upload_result" where
  "video_without_url f = (if f = ''v.mp4'' then Inr Map.empty else hosted f)"

definition audio_without_url :: "upload_file \<Rightarrow> exn + upload_result" where
  "audio_without_url f = (if f = ''a.mp3'' then Inr Map.empty else hosted f)"

definition audio_fails :: "upload_file \<Rightarrow> exn + upload_result" where
  "audio_fails f = (if f = ''a.mp3'' then Inl (Exception ''network down'') else hosted f)"

definition example_body :: generation_body where
  "example_body =
     \<lparr>body_video_url = ''https://x/v.mp4'', body_audio_url = ''https://x/a.mp3'',
      body_model = None\<rparr>"

section \<open>Properties\<close>

lemma str_nat_500: "str_nat 500 = ''500''"
  by (simp add: str_nat.simps digit_def)

lemma str_nat_404: "str_nat 404 = ''404''"
  by (simp add: str_nat.simps digit_def)

lemmas action_defs = perform_def bind_def try_except_def raise_def return_def
  upload_def create_def get_def list_all_generations_def estimate_def outcome_of_def

lemmas proj_defs = result_of_def world_of_def events_of_def calls_of_def

lemmas double_defs = double_def hosted_def no_url_def video_without_url_def
  audio_without_url_def audio_fails_def

subsection \<open>POST /generations\<close>

text \<open>
  Claim C1. For every request body with a \<^verbatim>\<open>video_url\<close> and an \<^verbatim>\<open>audio_url\<close>,
  the handler of POST /generations makes exactly one collaborator call: the generation
  client's create, with the two-element list whose first element is the video descriptor
  of \<^verbatim>\<open>video_url\<close> and whose second is the audio descriptor of \<^verbatim>\<open>audio_url\<close>,
  and with the request's model. When create returns a job record, the response is that
  record.
\<close>

theorem C1_create_generation_forwards:
  "calls_of (post_generations env body w) =
     [GenerationsCreate [Video (body_video_url body), Audio (body_audio_url body)]
        (model (parse_CreateGenerationRequest body))]
   \<and> (\<forall>generation w'.
        generations_create env [Video (body_video_url body), Audio (body_audio_url body)]
          (model (parse_CreateGenerationRequest body)) w = (Inr generation, w') \<longrightarrow>
        result_of (post_generations env body w) = Inr generation)"
  by (auto simp: post_generations_def create_generation_def parse_CreateGenerationRequest_def
      action_defs proj_defs Let_def split: prod.splits sum.splits)

theorem C1_create_generation_forwards_witness:
  "calls_of (post_generations (double hosted (Inr ''job-1'') (Inr ''0.25'')) example_body 0) =
     [GenerationsCreate [Video ''https://x/v.mp4'', Audio ''https://x/a.mp3''] ''lipsync-2'']
   \<and> result_of (post_generations (double hosted (Inr ''job-1'') (Inr ''0.25'')) example_body 0) =
     Inr ''job-1''"
  using C1_create_generation_forwards
    [of "double hosted (Inr ''job-1'') (Inr ''0.25'')" example_body 0]
  by (simp add: double_def example_body_def parse_CreateGenerationRequest_def with_default_def)

subsection \<open>The catch-all of the create, list, estimate-cost and upload-and-generate handlers\<close>



subsection \<open>GET /generations/{id}\<close>

text \<open>
  Claim C3. The handler of GET /generations/\{id\} hands the path segment, as it was
  given, to the generation client's get operation, and to nothing else: its one
  collaborator call is that get, the world it leaves is the world that call leaves, and
  the record it returns is the record that call returns. Whenever the call raises an
  exception \<open>e\<close>, whatever \<open>e\<close> is, the handler fails with status 404 and the detail
  \<^verbatim>\<open>str(e)\<close>.
\<close>

theorem C3_get_generation_forwards_id_and_maps_to_404:
  "calls_of (get_generation env ident w) = [GenerationsGet ident]
   \<and> world_of (get_generation env ident w) = snd (generations_get env ident w)
   \<and> (\<forall>generation. fst (generations_get env ident w) = Inr generation \<longrightarrow>
          result_of (get_generation env ident w) = Inr generation)
   \<and> (\<forall>e. fst (generations_get env ident w) = Inl e \<longrightarrow>
          result_of (get_generation env ident w) = Inl (HTTPException 404 (str_exn e)))
   \<and> (\<forall>e. (GenerationsGet ident, Raised e) \<in> set (events_of (get_generation env ident w)) \<longrightarrow>
          result_of (get_generation env ident w) = Inl (HTTPException 404 (str_exn e)))"
  by (auto simp: get_generation_def action_defs proj_defs Let_def split: prod.splits sum.splits)

theorem C3_get_generation_forwards_id_and_maps_to_404_witness:
  "generations_get (job_store [''gen-42'' \<mapsto> ''COMPLETED'']) ''gen-7'' 0 =
     (Inl (Exception ''no generation gen-7''), 1)
   \<and> calls_of (get_generation (job_store [''gen-42'' \<mapsto> ''COMPLETED'']) ''gen-7'' 0) =
       [GenerationsGet ''gen-7'']
   \<and> world_of (get_generation (job_store [''gen-42'' \<mapsto> ''COMPLETED'']) ''gen-7'' 0) = 1
   \<and> result_of (get_generation (job_store [''gen-42'' \<mapsto> ''COMPLETED'']) ''gen-7'' 0) =
       Inl (HTTPException 404 ''no generation gen-7'')
   \<and> generations_get (job_store [''gen-42'' \<mapsto> ''COMPLETED'']) ''gen-42'' 0 =
       (Inr ''COMPLETED'', 1)
   \<and> calls_of (get_generation (job_store [''gen-42'' \<mapsto> ''COMPLETED'']) ''gen-42'' 0) =
       [GenerationsGet ''gen-42'']
   \<and> result_of (get_generation (job_store [''gen-42'' \<mapsto> ''COMPLETED'']) ''gen-42'' 0) =
       Inr ''COMPLETED''"
proof -
  let ?env = "job_store [''gen-42'' \<mapsto> ''COMPLETED'']"
  have missing: "generations_get ?env ''gen-7'' 0 = (Inl (Exception ''no generation gen-7''), 1)"
    by (simp add: job_store_def)
  have known: "generations_get ?env ''gen-42'' 0 = (Inr ''COMPLETED'', 1)"
    by (simp add: job_store_def)
  note m7 = C3_get_generation_forwards_id_and_maps_to_404 [of ?env "''gen-7''" 0]
  note m42 = C3_get_generation_forwards_id_and_maps_to_404 [of ?env "''gen-42''" 0]
  have c7: "calls_of (get_generation ?env ''gen-7'' 0) = [GenerationsGet ''gen-7'']"
    by (rule m7 [THEN conjunct1])
  have w7: "world_of (get_generation ?env ''gen-7'' 0) = 1"
    using m7 [THEN conjunct2, THEN conjunct1] by (simp only: missing snd_conv)
  have r7: "result_of (get_generation ?env ''gen-7'' 0) =
      Inl (HTTPException 404 ''no generation gen-7'')"
    using m7 [THEN conjunct2, THEN conjunct2, THEN conjunct2, THEN conjunct1, rule_format,
        of "Exception ''no generation gen-7''"]
    by (simp only: missing fst_conv str_exn.simps)
  have c42: "calls_of (get_generation ?env ''gen-42'' 0) = [GenerationsGet ''gen-42'']"
    by (rule m42 [THEN conjunct1])
  have r42: "result_of (get_generation ?env ''gen-42'' 0) = Inr ''COMPLETED''"
    using m42 [THEN conjunct2, THEN conjunct2, THEN conjunct1, rule_format, of "''COMPLETED''"]
    by (simp only: known fst_conv)
  show ?thesis
    by (rule conjI [OF missing conjI [OF c7 conjI [OF w7 conjI [OF r7
        conjI [OF known conjI [OF c42 r42]]]]]])
qed

subsection \<open>The calls of a request, by handler\<close>

lemma estimate_cost_calls_shape:
  "calls_of (estimate_cost env video_file audio_file model' w) =
      [UploaderUpload video_file ''video'' ''lipsync_uploads'']
    \<or> calls_of (estimate_cost env video_file audio_file model' w) =
      [UploaderUpload video_file ''video'' ''lipsync_uploads'',
       UploaderUpload audio_file ''video'' ''lipsync_uploads'']
    \<or> (\<exists>inputs. calls_of (estimate_cost env video_file audio_file model' w) =
      [UploaderUpload video_file ''video'' ''lipsync_uploads'',
       UploaderUpload audio_file ''video'' ''lipsync_uploads'',
       GenerationsEstimateCost inputs model'])"
  by (auto simp: estimate_cost_def action_defs proj_defs Let_def
      split: prod.splits sum.splits)

lemma upload_and_generate_calls_shape:
  "calls_of (upload_and_generate env video_file audio_file model' w) =
      [UploaderUpload video_file ''video'' ''lipsync_uploads'']
    \<or> calls_of (upload_and_generate env video_file audio_file model' w) =
      [UploaderUpload video_file ''video'' ''lipsync_uploads'',
       UploaderUpload audio_file ''video'' ''lipsync_uploads'']
    \<or> (\<exists>inputs. calls_of (upload_and_generate env video_file audio_file model' w) =
      [UploaderUpload video_file ''video'' ''lipsync_uploads'',
       UploaderUpload audio_file ''video'' ''lipsync_uploads'',
       GenerationsCreate inputs model'])"
  by (auto simp: upload_and_generate_def action_defs proj_defs Let_def
      split: prod.splits sum.splits)




subsection \<open>The two multipart endpoints\<close>

text \<open>
  Claim C4. In the handlers of POST /generations/estimate-cost and
  POST /upload-and-generate, if the uploader's result for the video file or its result
  for the audio file has no secure URL (none at all, or an empty one), the handler fails
  with status 500 and no call of the request goes to the generation client.
\<close>

theorem C4_no_url_no_generation_call:
  assumes "uploader_upload env video_file ''video'' ''lipsync_uploads'' w =
             (Inr video_upload_result, w1)"
    and "falsy (video_upload_result ''secure_url'') \<or>
         (\<exists>audio_upload_result w2.
            uploader_upload env audio_file ''video'' ''lipsync_uploads'' w1 =
              (Inr audio_upload_result, w2) \<and>
            falsy (audio_upload_result ''secure_url''))"
  shows "(\<exists>detail. result_of (estimate_cost env video_file audio_file model' w) =
            Inl (HTTPException 500 detail))
       \<and> filter is_generation_call
            (calls_of (estimate_cost env video_file audio_file model' w)) = []
       \<and> (\<exists>detail. result_of (upload_and_generate env video_file audio_file model' w) =
            Inl (HTTPException 500 detail))
       \<and> filter is_generation_call
            (calls_of (upload_and_generate env video_file audio_file model' w)) = []"
  using assms
  by (auto simp: estimate_cost_def upload_and_generate_def action_defs proj_defs Let_def
      split: prod.splits sum.splits)

theorem C4_no_url_no_generation_call_witness:
  "uploader_upload (double audio_without_url (Inr ''job-1'') (Inr ''0.25''))
       ''v.mp4'' ''video'' ''lipsync_uploads'' 0 =
     (Inr [''secure_url'' \<mapsto> ''https://res.example/v.mp4''], 1)
   \<and> uploader_upload (double audio_without_url (Inr ''job-1'') (Inr ''0.25''))
       ''a.mp3'' ''video'' ''lipsync_uploads'' 1 = (Inr Map.empty, 2)
   \<and> falsy ((Map.empty :: upload_result) ''secure_url'')
   \<and> (\<exists>detail. result_of (estimate_cost (double audio_without_url (Inr ''job-1'') (Inr ''0.25''))
          ''v.mp4'' ''a.mp3'' ''lipsync-2'' 0) = Inl (HTTPException 500 detail))
   \<and> filter is_generation_call
        (calls_of (estimate_cost (double audio_without_url (Inr ''job-1'') (Inr ''0.25''))
          ''v.mp4'' ''a.mp3'' ''lipsync-2'' 0)) = []
   \<and> (\<exists>detail. result_of (upload_and_generate (double audio_without_url (Inr ''job-1'') (Inr ''0.25''))
          ''v.mp4'' ''a.mp3'' ''lipsync-2'' 0) = Inl (HTTPException 500 detail))
   \<and> filter is_generation_call
        (calls_of (upload_and_generate (double audio_without_url (Inr ''job-1'') (Inr ''0.25''))
          ''v.mp4'' ''a.mp3'' ''lipsync-2'' 0)) = []"
proof -
  let ?env = "double audio_without_url (Inr ''job-1'') (Inr ''0.25'')"
  have v: "uploader_upload ?env ''v.mp4'' ''video'' ''lipsync_uploads'' 0 =
      (Inr [''secure_url'' \<mapsto> ''https://res.example/v.mp4''], 1)"
    by (simp add: double_defs)
  have a: "uploader_upload ?env ''a.mp3'' ''video'' ''lipsync_uploads'' 1 = (Inr Map.empty, 2)"
    by (simp add: double_defs)
  have f: "falsy ((Map.empty :: upload_result) ''secure_url'')"
    by (simp add: falsy_def)
  have h: "falsy ([''secure_url'' \<mapsto> ''https://res.example/v.mp4''] ''secure_url'') \<or>
      (\<exists>audio_upload_result w2.
          uploader_upload ?env ''a.mp3'' ''video'' ''lipsync_uploads'' 1 =
            (Inr audio_upload_result, w2) \<and>
          falsy (audio_upload_result ''secure_url''))"
    by (intro disjI2 exI conjI) (rule a, rule f)
  note main = C4_no_url_no_generation_call [OF v h, where model' = "''lipsync-2''"]
  show ?thesis
    by (rule conjI [OF v conjI [OF a conjI [OF f main]]])
qed

text \<open>
  Claim C5. The claim is that the failure of the missing-URL case carries the handler's
  own message as its detail. The handler raises that \<^verbatim>\<open>HTTPException\<close> inside its
  own \<^verbatim>\<open>try\<close>, whose \<^verbatim>\<open>except Exception\<close> catches it and raises a second one
  with \<^verbatim>\<open>str\<close> of the first as detail. Run against an uploader that returns no URL,
  the detail of the response is the message with the status code in front of it.
\<close>

theorem C5_missing_url_detail_is_rewrapped:
  "result_of (estimate_cost (double no_url (Inr ''job-1'') (Inr ''0.25''))
      ''v.mp4'' ''a.mp3'' ''lipsync-2'' 0) =
     Inl (HTTPException 500 ''500: File upload to Cloudinary failed for cost estimation.'')
   \<and> result_of (upload_and_generate (double no_url (Inr ''job-1'') (Inr ''0.25''))
      ''v.mp4'' ''a.mp3'' ''lipsync-2'' 0) =
     Inl (HTTPException 500 ''500: File upload to Cloudinary failed.'')"
  by (simp add: estimate_cost_def upload_and_generate_def action_defs proj_defs double_defs
      falsy_def str_nat_500)

text \<open>
  Claim C7. In both multipart handlers the first collaborator call of a request is the
  upload of the video file, and the upload of the audio file, when it is made, is the
  second call: the calls of a request are the video upload alone, or the video upload and
  then the audio upload, or these two and then the call to the generation client.
\<close>

theorem C7_video_upload_first:
  "(calls_of (estimate_cost env video_file audio_file model' w) =
      [UploaderUpload video_file ''video'' ''lipsync_uploads'']
    \<or> calls_of (estimate_cost env video_file audio_file model' w) =
      [UploaderUpload video_file ''video'' ''lipsync_uploads'',
       UploaderUpload audio_file ''video'' ''lipsync_uploads'']
    \<or> (\<exists>inputs. calls_of (estimate_cost env video_file audio_file model' w) =
      [UploaderUpload video_file ''video'' ''lipsync_uploads'',
       UploaderUpload audio_file ''video'' ''lipsync_uploads'',
       GenerationsEstimateCost inputs model']))
   \<and> (calls_of (upload_and_generate env video_file audio_file model' w) =
      [UploaderUpload video_file ''video'' ''lipsync_uploads'']
    \<or> calls_of (upload_and_generate env video_file audio_file model' w) =
      [UploaderUpload video_file ''video'' ''lipsync_uploads'',
       UploaderUpload audio_file ''video'' ''lipsync_uploads'']
    \<or> (\<exists>inputs. calls_of (upload_and_generate env video_file audio_file model' w) =
      [UploaderUpload video_file ''video'' ''lipsync_uploads'',
       UploaderUpload audio_file ''video'' ''lipsync_uploads'',
       GenerationsCreate inputs model']))"
  by (rule conjI [OF estimate_cost_calls_shape upload_and_generate_calls_shape])

text \<open>
  Claim C10. In both multipart handlers, when the upload of the video file returns a
  result without a secure URL, the upload of the audio file is still made: the calls of
  the request are the video upload and then the audio upload, and the world the handler
  leaves is the one the audio upload left.
\<close>

theorem C10_audio_upload_attempted_without_video_url:
  assumes "uploader_upload env video_file ''video'' ''lipsync_uploads'' w =
             (Inr video_upload_result, w1)"
    and "falsy (video_upload_result ''secure_url'')"
  shows "calls_of (estimate_cost env video_file audio_file model' w) =
           [UploaderUpload video_file ''video'' ''lipsync_uploads'',
            UploaderUpload audio_file ''video'' ''lipsync_uploads'']
       \<and> world_of (estimate_cost env video_file audio_file model' w) =
           snd (uploader_upload env audio_file ''video'' ''lipsync_uploads'' w1)
       \<and> calls_of (upload_and_generate env video_file audio_file model' w) =
           [UploaderUpload video_file ''video'' ''lipsync_uploads'',
            UploaderUpload audio_file ''video'' ''lipsync_uploads'']
       \<and> world_of (upload_and_generate env video_file audio_file model' w) =
           snd (uploader_upload env audio_file ''video'' ''lipsync_uploads'' w1)"
  using assms
  by (auto simp: estimate_cost_def upload_and_generate_def action_defs proj_defs Let_def
      split: prod.splits sum.splits)

theorem C10_audio_upload_attempted_without_video_url_witness:
  "uploader_upload (double video_without_url (Inr ''job-1'') (Inr ''0.25''))
       ''v.mp4'' ''video'' ''lipsync_uploads'' 0 = (Inr Map.empty, 1)
   \<and> falsy ((Map.empty :: upload_result) ''secure_url'')
   \<and> calls_of (estimate_cost (double video_without_url (Inr ''job-1'') (Inr ''0.25''))
        ''v.mp4'' ''a.mp3'' ''lipsync-2'' 0) =
       [UploaderUpload ''v.mp4'' ''video'' ''lipsync_uploads'',
        UploaderUpload ''a.mp3'' ''video'' ''lipsync_uploads'']
   \<and> world_of (estimate_cost (double video_without_url (Inr ''job-1'') (Inr ''0.25''))
        ''v.mp4'' ''a.mp3'' ''lipsync-2'' 0) = 2
   \<and> calls_of (upload_and_generate (double video_without_url (Inr ''job-1'') (Inr ''0.25''))
        ''v.mp4'' ''a.mp3'' ''lipsync-2'' 0) =
       [UploaderUpload ''v.mp4'' ''video'' ''lipsync_uploads'',
        UploaderUpload ''a.mp3'' ''video'' ''lipsync_uploads'']
   \<and> world_of (upload_and_generate (double video_without_url (Inr ''job-1'') (Inr ''0.25''))
        ''v.mp4'' ''a.mp3'' ''lipsync-2'' 0) = 2"
proof -
  let ?env = "double video_without_url (Inr ''job-1'') (Inr ''0.25'')"
  have v: "uploader_upload ?env ''v.mp4'' ''video'' ''lipsync_uploads'' 0 = (Inr Map.empty, 1)"
    by (simp add: double_defs)
  have f: "falsy ((Map.empty :: upload_result) ''secure_url'')"
    by (simp add: falsy_def)
  have a: "snd (uploader_upload ?env ''a.mp3'' ''video'' ''lipsync_uploads'' 1) = 2"
    by (simp add: double_defs)
  from C10_audio_upload_attempted_without_video_url
    [OF v f, where audio_file = "''a.mp3''" and model' = "''lipsync-2''"] v f a
  show ?thesis by simp
qed

subsection \<open>The default model\<close>



subsection \<open>GET /\<close>

text \<open>
  Claim C8. Every request to GET / returns the same welcome payload, a record with one
  message string, makes no collaborator call and leaves the world as it was.
\<close>

theorem C8_read_root_static:
  "result_of (read_root w) =
     Inr [(''message'', ''Welcome to the LipSync API. Visit /docs for documentation.'')]
   \<and> calls_of (read_root w) = [] \<and> world_of (read_root w) = w"
  by (simp add: read_root_def return_def proj_defs)

subsection \<open>Startup\<close>

text \<open>
  Claim C9 says that startup fails whenever \<^verbatim>\<open>API_KEY\<close> is absent from the
  environment at process start. The module calls \<^verbatim>\<open>load_dotenv()\<close> before it reads
  the key, so a key that only the .env file holds is found: with an empty process
  environment and a .env file that sets \<^verbatim>\<open>API_KEY\<close>, startup builds the application.
\<close>

theorem C9_api_key_from_dotenv_counterexample:
  "os_getenv Map.empty ''API_KEY'' = None
   \<and> startup [''API_KEY'' \<mapsto> ''from-dotenv''] Map.empty =
       Inr \<lparr>cloudinary = \<lparr>cloud_name = None, api_key = None, api_secret = None, secure = True\<rparr>,
            title = ''LipSync API'',
            origins = [''http://localhost:8080'', ''http://127.0.0.1:8080'',
                       ''http://localhost:5173'', ''http://localhost:3000''],
            client_api_key = ''from-dotenv''\<rparr>"
  by (simp add: startup_def load_dotenv_def os_getenv_def falsy_def Let_def)

text \<open>
  Claim C9, amended. If \<^verbatim>\<open>API_KEY\<close> is absent from the process environment and from
  the .env file, or the value found (that of the process environment, else that of the
  .env file) is empty, startup ends with a \<^verbatim>\<open>RuntimeError\<close> and no application is
  built. If \<^verbatim>\<open>API_KEY\<close> has a non-empty value in the process environment, or is absent
  there and has a non-empty value in the .env file, startup builds the application, whose
  client holds that key.
\<close>

theorem C9_startup_requires_api_key:
  "((os_getenv environ ''API_KEY'' = None \<and> dotenv_file ''API_KEY'' = None)
     \<or> os_getenv environ ''API_KEY'' = Some []
     \<or> (os_getenv environ ''API_KEY'' = None \<and> dotenv_file ''API_KEY'' = Some []) \<longrightarrow>
      startup dotenv_file environ = Inl (RuntimeError ''API_KEY environment variable not set.''))
   \<and> (\<forall>k. k \<noteq> [] \<and>
          (os_getenv environ ''API_KEY'' = Some k
           \<or> (os_getenv environ ''API_KEY'' = None \<and> dotenv_file ''API_KEY'' = Some k)) \<longrightarrow>
      (\<exists>a. startup dotenv_file environ = Inr a \<and> client_api_key a = k))"
  by (auto simp: startup_def load_dotenv_def os_getenv_def falsy_def Let_def)

theorem C9_startup_requires_api_key_witness:
  "os_getenv Map.empty ''API_KEY'' = None
   \<and> startup Map.empty Map.empty =
       Inl (RuntimeError ''API_KEY environment variable not set.'')
   \<and> os_getenv [''API_KEY'' \<mapsto> ''''] ''API_KEY'' = Some []
   \<and> startup [''API_KEY'' \<mapsto> ''from-dotenv''] [''API_KEY'' \<mapsto> ''''] =
       Inl (RuntimeError ''API_KEY environment variable not set.'')
   \<and> os_getenv [''API_KEY'' \<mapsto> ''sk-test''] ''API_KEY'' = Some ''sk-test''
   \<and> (\<exists>a. startup [''API_KEY'' \<mapsto> ''from-dotenv''] [''API_KEY'' \<mapsto> ''sk-test''] = Inr a
          \<and> client_api_key a = ''sk-test'')
   \<and> (\<exists>a. startup [''API_KEY'' \<mapsto> ''from-dotenv''] Map.empty = Inr a
          \<and> client_api_key a = ''from-dotenv'')"
  using C9_startup_requires_api_key [of Map.empty Map.empty]
    C9_startup_requires_api_key [of "[''API_KEY'' \<mapsto> '''']" "[''API_KEY'' \<mapsto> ''from-dotenv'']"]
    C9_startup_requires_api_key
      [of "[''API_KEY'' \<mapsto> ''sk-test'']" "[''API_KEY'' \<mapsto> ''from-dotenv'']"]
    C9_startup_requires_api_key [of Map.empty "[''API_KEY'' \<mapsto> ''from-dotenv'']"]
  by (simp add: os_getenv_def)

end
